theory Spec2Isabelle
  imports Main "HOL-Library.Word" "HOL-Library.AList"
begin

section \<open>Account state objects (core/state/state\_object.go)\<close>

text \<open>
  Basic types. A coin symbol, an address and a Merkle root are byte strings
  (\<^verbatim>\<open>types.CoinSymbol\<close>, \<^verbatim>\<open>types.Address\<close>, \<^verbatim>\<open>types.Hash\<close> are
  byte arrays declared in \<^verbatim>\<open>core/types\<close>). Amounts are \<^verbatim>\<open>*big.Int\<close>:
  unbounded integers. The model covers non-nil amounts only.
\<close>

type_synonym byte = "8 word"
type_synonym CoinSymbol = "byte list"
type_synonym Address = "byte list"

text \<open>
  A Go map \<^verbatim>\<open>map[types.CoinSymbol]*big.Int\<close> is a reference to a mutable
  table. The table's content is an association list in which every key
  occurs once; the order of the list stands for one of the iteration orders
  that \<^verbatim>\<open>range\<close> may choose. Writing \<^verbatim>\<open>m[k] = v\<close> is \<open>AList.update\<close>.
\<close>

type_synonym balance_table = "(CoinSymbol \<times> int) list"
type_synonym map_ref = nat
type_synonym callback = nat

text \<open>
  \<^verbatim>\<open>type Balances struct { Data map[...]... }\<close>: the field holds a map
  reference, \<open>None\<close> for the nil map.
  \<^verbatim>\<open>type Account struct { Nonce; Balance; Root }\<close>.
\<close>

record Account =
  acc_Nonce :: "64 word"
  acc_Balance_Data :: "map_ref option"
  acc_Root :: "byte list"

record stateObject =
  address :: Address
  data :: Account
  suicided :: bool
  touched :: bool
  deleted :: bool
  onDirty :: "callback option"

text \<open>
  Everything the state-object methods reach besides the object itself: the
  tables behind the map references (with the next unused reference), the
  calls made to dirty callbacks so far, and the balance changes emitted by
  \<^verbatim>\<open>EmitBalanceChange\<close>, both in call order. A callback
  \<^verbatim>\<open>func(addr types.Address)\<close> is identified by a number; calling it
  with an address appends the pair to \<open>dirty_calls\<close>.
\<close>

record store =
  tables :: "map_ref \<Rightarrow> balance_table"
  next_ref :: map_ref
  dirty_calls :: "(callback \<times> Address) list"
  balance_changes :: "(Address \<times> CoinSymbol \<times> int) list"

text \<open>\<^verbatim>\<open>make(map[types.CoinSymbol]*big.Int)\<close>: a fresh, empty table.\<close>

definition make_map :: "store \<Rightarrow> store \<times> map_ref" where
  "make_map st =
     (st\<lparr>tables := (tables st)(next_ref st := []), next_ref := Suc (next_ref st)\<rparr>,
      next_ref st)"

text \<open>\<^verbatim>\<open>func (s *stateObject) empty() bool { return false }\<close>\<close>

definition empty_object :: "stateObject \<Rightarrow> bool" where
  "empty_object s = False"

text \<open>
  \<^verbatim>\<open>newObject\<close>: the account is passed by value, so its \<^verbatim>\<open>Data\<close>
  field (a map reference) is copied as a reference; a map is made only
  when the reference is nil.
\<close>

definition newObject :: "store \<Rightarrow> Address \<Rightarrow> Account \<Rightarrow> callback option
    \<Rightarrow> store \<times> stateObject" where
  "newObject st addr d cb =
     (case acc_Balance_Data d of
        None \<Rightarrow>
          (let (st', r) = make_map st in
           (st', \<lparr>address = addr, data = d\<lparr>acc_Balance_Data := Some r\<rparr>,
                  suicided = False, touched = False, deleted = False, onDirty = cb\<rparr>))
      | Some r \<Rightarrow>
          (st, \<lparr>address = addr, data = d,
                suicided = False, touched = False, deleted = False, onDirty = cb\<rparr>))"

text \<open>
  The block \<^verbatim>\<open>if self.onDirty != nil { self.onDirty(self.Address());
  self.onDirty = nil }\<close>, which \<^verbatim>\<open>markSuicided\<close>, \<^verbatim>\<open>touch\<close>,
  \<^verbatim>\<open>setBalance\<close> and \<^verbatim>\<open>setNonce\<close> each contain.
\<close>

definition fire_onDirty :: "store \<Rightarrow> stateObject \<Rightarrow> store \<times> stateObject" where
  "fire_onDirty st s =
     (case onDirty s of
        None \<Rightarrow> (st, s)
      | Some cb \<Rightarrow>
          (st\<lparr>dirty_calls := dirty_calls st @ [(cb, address s)]\<rparr>, s\<lparr>onDirty := None\<rparr>))"

definition markSuicided :: "store \<Rightarrow> stateObject \<Rightarrow> store \<times> stateObject" where
  "markSuicided st s = fire_onDirty st (s\<lparr>suicided := True\<rparr>)"

definition touch :: "store \<Rightarrow> stateObject \<Rightarrow> store \<times> stateObject" where
  "touch st s = (let (st', s') = fire_onDirty st s in (st', s'\<lparr>touched := True\<rparr>))"

text \<open>
  \<^verbatim>\<open>Balance(coinSymbol)\<close>: zero for a nil map and for a key whose entry
  is nil (absent), the stored amount otherwise.
\<close>

definition Balance :: "store \<Rightarrow> stateObject \<Rightarrow> CoinSymbol \<Rightarrow> int" where
  "Balance st s coinSymbol =
     (case acc_Balance_Data (data s) of
        None \<Rightarrow> 0
      | Some r \<Rightarrow>
          (case map_of (tables st r) coinSymbol of
             None \<Rightarrow> 0
           | Some v \<Rightarrow> v))"

definition setBalance :: "store \<Rightarrow> stateObject \<Rightarrow> CoinSymbol \<Rightarrow> int
    \<Rightarrow> store \<times> stateObject" where
  "setBalance st s coinSymbol amount =
     (let (st1, s1, r) =
            (case acc_Balance_Data (data s) of
               None \<Rightarrow>
                 (let (st', r') = make_map st in
                  (st', s\<lparr>data := (data s)\<lparr>acc_Balance_Data := Some r'\<rparr>\<rparr>, r'))
             | Some r' \<Rightarrow> (st, s, r'));
          st2 = st1\<lparr>tables := (tables st1)(r := AList.update coinSymbol amount (tables st1 r))\<rparr>
      in fire_onDirty st2 s1)"

text \<open>
  \<^verbatim>\<open>SetBalance\<close>: \<^verbatim>\<open>EmitBalanceChange(self.address, coinSymbol, amount)\<close>,
  then \<^verbatim>\<open>setBalance\<close>.
\<close>

definition SetBalance :: "store \<Rightarrow> stateObject \<Rightarrow> CoinSymbol \<Rightarrow> int
    \<Rightarrow> store \<times> stateObject" where
  "SetBalance st s coinSymbol amount =
     setBalance (st\<lparr>balance_changes := balance_changes st @ [(address s, coinSymbol, amount)]\<rparr>)
       s coinSymbol amount"

definition AddBalance :: "store \<Rightarrow> stateObject \<Rightarrow> CoinSymbol \<Rightarrow> int
    \<Rightarrow> store \<times> stateObject" where
  "AddBalance st c coinSymbol amount =
     (if amount = 0 then (if empty_object c then touch st c else (st, c))
      else SetBalance st c coinSymbol (Balance st c coinSymbol + amount))"

definition SubBalance :: "store \<Rightarrow> stateObject \<Rightarrow> CoinSymbol \<Rightarrow> int
    \<Rightarrow> store \<times> stateObject" where
  "SubBalance st c coinSymbol amount =
     (if amount = 0 then (st, c)
      else SetBalance st c coinSymbol (Balance st c coinSymbol - amount))"

text \<open>
  \<^verbatim>\<open>deepCopy\<close>: \<^verbatim>\<open>newObject(db, self.address, self.data, onDirty)\<close>, then
  the flags \<^verbatim>\<open>suicided\<close> and \<^verbatim>\<open>deleted\<close> are copied.
\<close>

definition deepCopy :: "store \<Rightarrow> stateObject \<Rightarrow> callback option \<Rightarrow> store \<times> stateObject" where
  "deepCopy st s cb =
     (let (st', c) = newObject st (address s) (data s) cb in
      (st', c\<lparr>suicided := suicided s, deleted := deleted s\<rparr>))"

definition setNonce :: "store \<Rightarrow> stateObject \<Rightarrow> 64 word \<Rightarrow> store \<times> stateObject" where
  "setNonce st s nonce = fire_onDirty st (s\<lparr>data := (data s)\<lparr>acc_Nonce := nonce\<rparr>\<rparr>)"

definition SetNonce :: "store \<Rightarrow> stateObject \<Rightarrow> 64 word \<Rightarrow> store \<times> stateObject" where
  "SetNonce st s nonce = setNonce st s nonce"

definition Nonce :: "stateObject \<Rightarrow> 64 word" where
  "Nonce s = acc_Nonce (data s)"

text \<open>
  The calls a client can make on one state object, and a sequence of them
  made on the same object over its lifetime.
\<close>

datatype mutation =
    CallSetBalance CoinSymbol int
  | CallAddBalance CoinSymbol int
  | CallSubBalance CoinSymbol int
  | CallSetNonce "64 word"
  | CallMarkSuicided
  | CallTouch

fun call :: "store \<Rightarrow> stateObject \<Rightarrow> mutation \<Rightarrow> store \<times> stateObject" where
  "call st s (CallSetBalance c a) = SetBalance st s c a"
| "call st s (CallAddBalance c a) = AddBalance st s c a"
| "call st s (CallSubBalance c a) = SubBalance st s c a"
| "call st s (CallSetNonce n) = SetNonce st s n"
| "call st s CallMarkSuicided = markSuicided st s"
| "call st s CallTouch = touch st s"

fun calls :: "store \<Rightarrow> stateObject \<Rightarrow> mutation list \<Rightarrow> store \<times> stateObject" where
  "calls st s [] = (st, s)"
| "calls st s (m # ms) = (let (st', s') = call st s m in calls st' s' ms)"

text \<open>
  The mutating calls: every call but an \<^verbatim>\<open>AddBalance\<close> or
  \<^verbatim>\<open>SubBalance\<close> of amount zero, which return at once.
\<close>

fun mutating :: "mutation \<Rightarrow> bool" where
  "mutating (CallAddBalance c a) = (a \<noteq> 0)"
| "mutating (CallSubBalance c a) = (a \<noteq> 0)"
| "mutating m = True"

text \<open>An empty store, for concrete runs: no table written, no call made yet.\<close>

definition store0 :: store where
  "store0 = \<lparr>tables = (\<lambda>r. []), next_ref = 0, dirty_calls = [], balance_changes = []\<rparr>"

section \<open>Canonical encoding of balances (core/state/state\_object.go)\<close>

text \<open>
  Errors returned by this code. \<open>ErrExternal\<close> carries the message of an
  error produced in another package (\<^verbatim>\<open>rlp\<close>, \<^verbatim>\<open>crypto\<close>), which
  this code passes on unchanged.
\<close>

datatype error = ErrInvalidSig | ErrInvalidPublicKey | ErrIncorrectTxSignature | ErrExternal string

text \<open>
  \<^verbatim>\<open>big.NewInt(0).SetBytes(k.Bytes())\<close>: the bytes of a coin symbol read
  as a big-endian unsigned integer.
\<close>

definition coin_value :: "CoinSymbol \<Rightarrow> nat" where
  "coin_value k = foldl (\<lambda>n b. 256 * n + unat b) 0 k"

text \<open>
  The comparison that \<^verbatim>\<open>getCoins\<close> hands to \<^verbatim>\<open>sort.Slice\<close>:
  \<^verbatim>\<open>SetBytes(keys[a]).Cmp(SetBytes(keys[b])) == 1\<close>.
\<close>

definition coin_less :: "CoinSymbol \<Rightarrow> CoinSymbol \<Rightarrow> bool" where
  "coin_less a b = (coin_value a > coin_value b)"

text \<open>
  \<^verbatim>\<open>sort.Slice(keys, less)\<close> of Go's standard library, by its contract: the
  slice is rearranged so that no element is \<^verbatim>\<open>less\<close> than one standing
  before it. The model is an insertion sort. The order Go gives to elements
  that compare equal is unspecified; coin symbols of one width compare equal
  only when they are the same symbol.
\<close>

fun insert_Slice :: "('a \<Rightarrow> 'a \<Rightarrow> bool) \<Rightarrow> 'a \<Rightarrow> 'a list \<Rightarrow> 'a list" where
  "insert_Slice lt x [] = [x]"
| "insert_Slice lt x (y # ys) =
     (if lt x y then x # y # ys else y # insert_Slice lt x ys)"

definition sort_Slice :: "('a \<Rightarrow> 'a \<Rightarrow> bool) \<Rightarrow> 'a list \<Rightarrow> 'a list" where
  "sort_Slice lt xs = foldr (insert_Slice lt) xs []"

text \<open>
  \<^verbatim>\<open>Balances.getCoins\<close>, on the content of the map \<^verbatim>\<open>b.Data\<close> (empty
  for the nil map): the keys whose amount is greater than zero, sorted.
\<close>

definition getCoins :: "balance_table \<Rightarrow> CoinSymbol list" where
  "getCoins b = sort_Slice coin_less (map fst (filter (\<lambda>(k, v). v > 0) b))"

text \<open>\<^verbatim>\<open>type Balance struct { Coin types.CoinSymbol; Amount *big.Int }\<close>\<close>

record Balance_entry =
  bal_Coin :: CoinSymbol
  bal_Amount :: int

text \<open>
  \<^verbatim>\<open>b.Data[k]\<close> as \<^verbatim>\<open>EncodeRLP\<close> reads it. Go yields the nil pointer
  for a key that is not in the map; the keys that \<^verbatim>\<open>getCoins\<close> returns
  are in the map (\<open>getCoins_in_table\<close> below), and the model gives 0 for
  the others.
\<close>

definition index_table :: "balance_table \<Rightarrow> CoinSymbol \<Rightarrow> int" where
  "index_table b k = (case map_of b k of None \<Rightarrow> 0 | Some v \<Rightarrow> v)"

text \<open>
  The slice \<^verbatim>\<open>balances\<close> that \<^verbatim>\<open>Balances.EncodeRLP\<close> builds, and the
  method itself. The byte-level encoder \<^verbatim>\<open>rlp.Encode\<close> and decoder
  \<^verbatim>\<open>rlp.Stream.Decode\<close> belong to package \<^verbatim>\<open>rlp\<close>: they are
  parameters, from a list of entries to the encoded form \<open>'w\<close> or an error,
  and back.
\<close>

definition encoded_balances :: "balance_table \<Rightarrow> Balance_entry list" where
  "encoded_balances b =
     map (\<lambda>k. \<lparr>bal_Coin = k, bal_Amount = index_table b k\<rparr>) (getCoins b)"

definition EncodeRLP :: "(Balance_entry list \<Rightarrow> error + 'w) \<Rightarrow> balance_table \<Rightarrow> error + 'w" where
  "EncodeRLP encode b = encode (encoded_balances b)"

text \<open>
  \<^verbatim>\<open>Balances.DecodeRLP\<close>: \<open>b\<close> is the content of the receiver's map
  (empty when the map was nil and has just been made). A decoding error is
  returned as it is; otherwise the entries are written into the map in
  order, a later entry for a coin replacing an earlier one.
\<close>

definition DecodeRLP :: "('w \<Rightarrow> error + Balance_entry list) \<Rightarrow> balance_table \<Rightarrow> 'w
    \<Rightarrow> error + balance_table" where
  "DecodeRLP decode b s =
     (case decode s of
        Inl err \<Rightarrow> Inl err
      | Inr balances \<Rightarrow>
          Inr (foldl (\<lambda>m v. AList.update (bal_Coin v) (bal_Amount v) m) b balances))"

text \<open>Descending by the numeric value of the coin symbol.\<close>

abbreviation descending :: "CoinSymbol list \<Rightarrow> bool" where
  "descending ks \<equiv> sorted_wrt (\<lambda>a b. coin_value b \<le> coin_value a) ks"

text \<open>A table for concrete runs: four coins, one of them with amount zero.\<close>

definition table0 :: balance_table where
  "table0 = [([1, 2], 5), ([0, 3], 0), ([2, 0], 7), ([0, 4], 1)]"

section \<open>The delegation transaction (DelegateData.Run)\<close>

text \<open>
  The result codes of package \<^verbatim>\<open>core/code\<close> that \<^verbatim>\<open>Run\<close> returns, and
  the response. The log text is kept as the message with its arguments, not
  as the formatted string.
\<close>

datatype result_code =
    OK
  | CoinNotExists
  | StakeShouldBePositive
  | CoinReserveNotSufficient
  | InsufficientFunds
  | CandidateNotFound

datatype log_message =
    NoLog
  | LogCoinNotExists CoinSymbol
  | LogStakeShouldBePositive
  | LogReserveNotSufficient int int
  | LogInsufficientFunds Address int CoinSymbol
  | LogCandidateNotFound

record Response =
  Code :: result_code
  Log :: log_message
  GasUsed :: int
  GasWanted :: int

text \<open>
  \<^verbatim>\<open>type DelegateData struct { PubKey []byte; Coin types.CoinSymbol;
  Stake *big.Int }\<close>
\<close>

record DelegateData =
  dd_PubKey :: "byte list"
  dd_Coin :: CoinSymbol
  dd_Stake :: int

text \<open>
  Modelled from the spec: the transaction envelope
  \<open>{Nonce, GasPrice, GasCoin, Gas, Payload}\<close>, whose Go declaration and
  method \<^verbatim>\<open>Gas()\<close> are not among the sources verified here. \<open>tx_Gas\<close> is what
  \<^verbatim>\<open>tx.Gas()\<close> returns; the payload is the \<^verbatim>\<open>DelegateData\<close> that
  receives \<^verbatim>\<open>Run\<close>.
\<close>

record Transaction =
  tx_Nonce :: "64 word"
  tx_GasPrice :: int
  tx_GasCoin :: CoinSymbol
  tx_Gas :: int

text \<open>
  Modelled from the spec: a coin as the state manager returns it,
  \<open>GetStateCoin(symbol) -> {Volume, ReserveBalance, Crr}\<close>.
\<close>

record StateCoin =
  Volume :: int
  ReserveBalance :: int
  Crr :: nat

text \<open>
  Modelled from the spec: the state manager (\<^verbatim>\<open>state.StateDB\<close>), whose
  source is not among the sources verified here, by the interface that \<^verbatim>\<open>Run\<close>
  consumes: the registered coins, the balance of every account in every
  coin, the nonces, the registered candidates and the delegations recorded,
  in order.
\<close>

record StateDB =
  db_coins :: "CoinSymbol \<Rightarrow> StateCoin option"
  db_balances :: "Address \<Rightarrow> CoinSymbol \<Rightarrow> int"
  db_nonces :: "Address \<Rightarrow> 64 word"
  db_candidates :: "byte list \<Rightarrow> bool"
  db_delegations :: "(Address \<times> byte list \<times> CoinSymbol \<times> int) list"

text \<open>Modelled from the spec: \<open>CoinExists(symbol) -> bool\<close>.\<close>

definition CoinExists :: "StateDB \<Rightarrow> CoinSymbol \<Rightarrow> bool" where
  "CoinExists db symbol = (db_coins db symbol \<noteq> None)"

text \<open>
  Modelled from the spec: \<open>GetStateCoin(symbol)\<close>; \<open>None\<close> is the nil
  pointer, for a coin that is not registered.
\<close>

definition GetStateCoin :: "StateDB \<Rightarrow> CoinSymbol \<Rightarrow> StateCoin option" where
  "GetStateCoin db symbol = db_coins db symbol"

text \<open>Modelled from the spec: \<open>GetBalance(addr, symbol) -> amount\<close>.\<close>

definition GetBalance :: "StateDB \<Rightarrow> Address \<Rightarrow> CoinSymbol \<Rightarrow> int" where
  "GetBalance db addr symbol = db_balances db addr symbol"

text \<open>
  Modelled from the spec: \<open>SubBalance(addr, symbol, amount)\<close>, the state
  object's \<^verbatim>\<open>SubBalance\<close> on the account: nothing for amount zero, the
  balance less the amount otherwise, with no check for sufficiency.
\<close>

definition StateDB_SubBalance :: "StateDB \<Rightarrow> Address \<Rightarrow> CoinSymbol \<Rightarrow> int \<Rightarrow> StateDB" where
  "StateDB_SubBalance db addr symbol amount =
     (if amount = 0 then db
      else db\<lparr>db_balances :=
             (db_balances db)(addr := (db_balances db addr)(symbol := db_balances db addr symbol - amount))\<rparr>)"

text \<open>Modelled from the spec: \<open>SetNonce(addr, nonce)\<close>.\<close>

definition StateDB_SetNonce :: "StateDB \<Rightarrow> Address \<Rightarrow> 64 word \<Rightarrow> StateDB" where
  "StateDB_SetNonce db addr nonce = db\<lparr>db_nonces := (db_nonces db)(addr := nonce)\<rparr>"

text \<open>Modelled from the spec: \<open>CandidateExists(pubkey) -> bool\<close>.\<close>

definition CandidateExists :: "StateDB \<Rightarrow> byte list \<Rightarrow> bool" where
  "CandidateExists db pubkey = db_candidates db pubkey"

text \<open>
  Modelled from the spec: \<open>Delegate(addr, pubkey, coin, amount)\<close> records a
  delegation.
\<close>

definition Delegate :: "StateDB \<Rightarrow> Address \<Rightarrow> byte list \<Rightarrow> CoinSymbol \<Rightarrow> int \<Rightarrow> StateDB" where
  "Delegate db addr pubkey coin amount =
     db\<lparr>db_delegations := db_delegations db @ [(addr, pubkey, coin, amount)]\<rparr>"

text \<open>
  What \<^verbatim>\<open>Run\<close> takes from other packages: \<^verbatim>\<open>types.GetBaseCoin()\<close>, the
  variable \<^verbatim>\<open>CommissionMultiplier\<close>, the constant
  \<^verbatim>\<open>commissions.DelegateTx\<close> and the pure function
  \<^verbatim>\<open>formula.CalculateSaleAmount(volume, reserve, crr, amount)\<close>.
\<close>

record params =
  BaseCoin :: CoinSymbol
  CommissionMultiplier :: int
  DelegateTx :: int
  CalculateSaleAmount :: "int \<Rightarrow> int \<Rightarrow> nat \<Rightarrow> int \<Rightarrow> int"

text \<open>\<^verbatim>\<open>func (data DelegateData) Gas() int64 { return commissions.DelegateTx }\<close>\<close>

definition Gas :: "params \<Rightarrow> DelegateData \<Rightarrow> int" where
  "Gas P d = DelegateTx P"

text \<open>A response that carries a code and a log only; the other fields are zero.\<close>

definition failure :: "result_code \<Rightarrow> log_message \<Rightarrow> Response" where
  "failure c l = \<lparr>Code = c, Log = l, GasUsed = 0, GasWanted = 0\<rparr>"

text \<open>
  \<^verbatim>\<open>commissionInBaseCoin\<close>: \<^verbatim>\<open>GasPrice * tx.Gas()\<close>, then times
  \<^verbatim>\<open>CommissionMultiplier\<close>.
\<close>

definition commissionInBaseCoin :: "params \<Rightarrow> Transaction \<Rightarrow> int" where
  "commissionInBaseCoin P tx = tx_GasPrice tx * tx_Gas tx * CommissionMultiplier P"

text \<open>
  The block \<^verbatim>\<open>if tx.GasCoin != types.GetBaseCoin() { ... }\<close> of \<^verbatim>\<open>Run\<close>,
  which leaves the commission in the gas coin in \<^verbatim>\<open>commission\<close> or
  returns a response. \<open>None\<close> is the nil dereference of
  \<^verbatim>\<open>coin.ReserveBalance()\<close> on a coin that is not registered.
\<close>

definition gas_coin_commission :: "params \<Rightarrow> Transaction \<Rightarrow> StateDB
    \<Rightarrow> (Response + int) option" where
  "gas_coin_commission P tx context =
     (if tx_GasCoin tx \<noteq> BaseCoin P then
        (case GetStateCoin context (tx_GasCoin tx) of
           None \<Rightarrow> None
         | Some coin \<Rightarrow>
             if ReserveBalance coin < commissionInBaseCoin P tx
             then Some (Inl (failure CoinReserveNotSufficient
                    (LogReserveNotSufficient (ReserveBalance coin) (commissionInBaseCoin P tx))))
             else Some (Inr (CalculateSaleAmount P (Volume coin) (ReserveBalance coin) (Crr coin)
                    (commissionInBaseCoin P tx))))
      else Some (Inr (commissionInBaseCoin P tx)))"

text \<open>
  \<^verbatim>\<open>DelegateData.Run\<close>. The result is the response together with the
  state and the reward pool as the call leaves them (the source mutates
  \<^verbatim>\<open>context\<close> and \<^verbatim>\<open>rewardPool\<close> in place); \<open>None\<close> is a panic.
  The receiver \<^verbatim>\<open>data\<close> is \<open>d\<close>.
\<close>

definition Run :: "params \<Rightarrow> DelegateData \<Rightarrow> Address \<Rightarrow> Transaction \<Rightarrow> StateDB \<Rightarrow> bool
    \<Rightarrow> int \<Rightarrow> 64 word \<Rightarrow> (Response \<times> StateDB \<times> int) option" where
  "Run P d sender tx context isCheck rewardPool currentBlock =
     (if \<not> CoinExists context (tx_GasCoin tx) then
        Some (failure CoinNotExists (LogCoinNotExists (tx_GasCoin tx)), context, rewardPool)
      else if dd_Stake d \<le> 0 then
        Some (failure StakeShouldBePositive LogStakeShouldBePositive, context, rewardPool)
      else
        (case gas_coin_commission P tx context of
           None \<Rightarrow> None
         | Some (Inl response) \<Rightarrow> Some (response, context, rewardPool)
         | Some (Inr commission) \<Rightarrow>
             if GetBalance context sender (tx_GasCoin tx) < commission then
               Some (failure InsufficientFunds
                       (LogInsufficientFunds sender commission (tx_GasCoin tx)),
                     context, rewardPool)
             else if GetBalance context sender (dd_Coin d) < dd_Stake d then
               Some (failure InsufficientFunds
                       (LogInsufficientFunds sender (dd_Stake d) (dd_Coin d)),
                     context, rewardPool)
             else if dd_Coin d = tx_GasCoin tx
                     \<and> GetBalance context sender (tx_GasCoin tx) < 0 + dd_Stake d + commission then
               Some (failure InsufficientFunds
                       (LogInsufficientFunds sender (0 + dd_Stake d + commission) (tx_GasCoin tx)),
                     context, rewardPool)
             else if \<not> CandidateExists context (dd_PubKey d) then
               Some (failure CandidateNotFound LogCandidateNotFound, context, rewardPool)
             else
               (let response = \<lparr>Code = OK, Log = NoLog, GasUsed = tx_Gas tx, GasWanted = tx_Gas tx\<rparr>
                in if \<not> isCheck then
                     (let context1 = StateDB_SubBalance context sender (tx_GasCoin tx) commission;
                          context2 = StateDB_SubBalance context1 sender (dd_Coin d) (dd_Stake d);
                          context3 = Delegate context2 sender (dd_PubKey d) (dd_Coin d) (dd_Stake d);
                          context4 = StateDB_SetNonce context3 sender (tx_Nonce tx)
                      in Some (response, context4, rewardPool + commissionInBaseCoin P tx))
                   else Some (response, context, rewardPool))))"

text \<open>
  A state and a transaction for concrete runs: the base coin \<open>[1]\<close> is the
  gas coin, the stake coin \<open>[2]\<close> is registered, the sender \<open>[9]\<close> holds
  1000 of the gas coin and 500 of the stake coin, the candidate \<open>[5]\<close> is
  registered, and the commission is \<open>5 * 10 * 1 = 50\<close>.
\<close>

definition params0 :: params where
  "params0 = \<lparr>BaseCoin = [1], CommissionMultiplier = 1, DelegateTx = 10,
               CalculateSaleAmount = (\<lambda>volume reserve crr amount. 2 * amount)\<rparr>"

definition statedb0 :: StateDB where
  "statedb0 =
     \<lparr>db_coins = (\<lambda>c. if c = [1] \<or> c = [2]
                         then Some \<lparr>Volume = 1000000, ReserveBalance = 1000000, Crr = 100\<rparr>
                         else None),
      db_balances = (\<lambda>a c. if a = [9] \<and> c = [1] then 1000 else if a = [9] \<and> c = [2] then 500 else 0),
      db_nonces = (\<lambda>a. 0),
      db_candidates = (\<lambda>k. k = [5]),
      db_delegations = []\<rparr>"

definition tx0 :: Transaction where
  "tx0 = \<lparr>tx_Nonce = 1, tx_GasPrice = 5, tx_GasCoin = [1], tx_Gas = 10\<rparr>"

definition delegate0 :: DelegateData where
  "delegate0 = \<lparr>dd_PubKey = [5], dd_Coin = [2], dd_Stake = 400\<rparr>"

section \<open>Signed checks (package check)\<close>

text \<open>
  \<^verbatim>\<open>types.Hash\<close> is an array of 32 bytes: one 256-bit value, whose bytes
  (\<^verbatim>\<open>hash[:]\<close>) are read from the most significant one.
\<close>

type_synonym Hash = "256 word"

definition hash_bytes :: "Hash \<Rightarrow> byte list" where
  "hash_bytes h = map (\<lambda>i. ucast (drop_bit (8 * (31 - i)) h)) [0..<32]"

text \<open>
  \<^verbatim>\<open>type Check struct\<close>. The fields of type \<^verbatim>\<open>*big.Int\<close> are pointers:
  \<open>None\<close> is nil, as in the zero value \<^verbatim>\<open>var check Check\<close>.
\<close>

record Check =
  chk_Nonce :: "64 word"
  chk_DueBlock :: "64 word"
  chk_Coin :: CoinSymbol
  chk_Value :: "int option"
  chk_Lock :: "int option"
  chk_V :: "int option"
  chk_R :: "int option"
  chk_S :: "int option"

text \<open>
  The values that \<^verbatim>\<open>Hash\<close> and \<^verbatim>\<open>LockPubKey\<close> put into the
  \<^verbatim>\<open>[]interface{}\<close> they hash.
\<close>

datatype rlp_item = RlpUint64 "64 word" | RlpCoin CoinSymbol | RlpBig "int option"

text \<open>
  What the package takes from \<^verbatim>\<open>rlp\<close>, \<^verbatim>\<open>crypto/sha3\<close> and
  \<^verbatim>\<open>crypto\<close>, as parameters:
  the bytes that \<^verbatim>\<open>rlp.Encode\<close> writes for a list of items, the digest
  of \<^verbatim>\<open>sha3.NewKeccak256\<close>, the struct and the error that
  \<^verbatim>\<open>rlp.Decode\<close> leaves for a buffer (starting from the zero
  \<^verbatim>\<open>Check\<close>), and \<^verbatim>\<open>crypto.ValidateSignatureValues\<close>,
  \<^verbatim>\<open>crypto.Ecrecover\<close> and \<^verbatim>\<open>crypto.Keccak256\<close>.
\<close>

record externals =
  rlp_Encode :: "rlp_item list \<Rightarrow> byte list"
  sha3_Keccak256 :: "byte list \<Rightarrow> Hash"
  rlp_Decode :: "byte list \<Rightarrow> Check \<times> error option"
  ValidateSignatureValues :: "byte \<Rightarrow> int \<Rightarrow> int \<Rightarrow> bool"
  Ecrecover :: "byte list \<Rightarrow> byte list \<Rightarrow> error + byte list"
  Keccak256 :: "byte list \<Rightarrow> Hash"

text \<open>
  \<^verbatim>\<open>rlpHash\<close>: the encoding is written into the hasher (the error of
  \<^verbatim>\<open>rlp.Encode\<close> is dropped) and the digest is the result.
\<close>

definition rlpHash :: "externals \<Rightarrow> rlp_item list \<Rightarrow> Hash" where
  "rlpHash X x = sha3_Keccak256 X (rlp_Encode X x)"

text \<open>The list that \<^verbatim>\<open>Check.Hash\<close> hashes, and the method.\<close>

definition Hash_fields :: "Check \<Rightarrow> rlp_item list" where
  "Hash_fields check =
     [RlpUint64 (chk_Nonce check), RlpUint64 (chk_DueBlock check), RlpCoin (chk_Coin check),
      RlpBig (chk_Value check), RlpBig (chk_Lock check)]"

definition Hash :: "externals \<Rightarrow> Check \<Rightarrow> Hash" where
  "Hash X check = rlpHash X (Hash_fields check)"


text \<open>
  \<^verbatim>\<open>(*big.Int).Bytes()\<close>: the absolute value as big-endian bytes with no
  leading zero (no byte at all for 0).
\<close>

function nat_Bytes :: "nat \<Rightarrow> byte list" where
  "nat_Bytes n = (if n = 0 then [] else nat_Bytes (n div 256) @ [word_of_nat (n mod 256)])"
  by pat_completeness auto
termination
  by (relation "measure id") auto

declare nat_Bytes.simps [simp del]

definition Bytes :: "int \<Rightarrow> byte list" where
  "Bytes x = nat_Bytes (nat \<bar>x\<bar>)"

text \<open>
  \<^verbatim>\<open>(*big.Int).BitLen()\<close>: the length of the absolute value in bits, 0 for
  0.
\<close>

function nat_BitLen :: "nat \<Rightarrow> nat" where
  "nat_BitLen n = (if n = 0 then 0 else Suc (nat_BitLen (n div 2)))"
  by pat_completeness auto
termination
  by (relation "measure id") auto

declare nat_BitLen.simps [simp del]

definition BitLen :: "int \<Rightarrow> nat" where
  "BitLen x = nat_BitLen (nat \<bar>x\<bar>)"

text \<open>
  \<^verbatim>\<open>(*big.Int).Uint64()\<close>: the low 64 bits of the absolute value (Go's
  \<^verbatim>\<open>low64(x.abs)\<close>).
\<close>

definition Uint64 :: "int \<Rightarrow> 64 word" where
  "Uint64 x = word_of_nat (nat \<bar>x\<bar>)"

text \<open>\<^verbatim>\<open>V := byte(Vb.Uint64() - 27)\<close>: the subtraction wraps at 64 bits.\<close>

definition recovery_id :: "int \<Rightarrow> byte" where
  "recovery_id Vb = ucast (Uint64 Vb - 27)"

text \<open>
  The 65 bytes of \<^verbatim>\<open>sig\<close> in \<^verbatim>\<open>recoverPlain\<close>: \<^verbatim>\<open>R\<close> and
  \<^verbatim>\<open>S\<close> right-aligned in 32 zero-filled bytes each, then \<^verbatim>\<open>V\<close>.
\<close>

definition signature65 :: "int \<Rightarrow> int \<Rightarrow> byte \<Rightarrow> byte list" where
  "signature65 R S V =
     (let r = Bytes R; s = Bytes S in
      replicate (32 - length r) 0 @ r @ replicate (32 - length s) 0 @ s @ [V])"

text \<open>
  \<^verbatim>\<open>recoverPlain\<close>. \<open>None\<close> is a panic: the slice expressions
  \<^verbatim>\<open>sig[32-len(r):32]\<close> and \<^verbatim>\<open>sig[64-len(s):64]\<close> are out of range
  when \<^verbatim>\<open>r\<close> or \<^verbatim>\<open>s\<close> has more than 32 bytes. The address is
  \<^verbatim>\<open>crypto.Keccak256(pub[1:])[12:]\<close>, copied into the 20 bytes of
  \<^verbatim>\<open>addr\<close>.
\<close>

definition recoverPlain :: "externals \<Rightarrow> Hash \<Rightarrow> int \<Rightarrow> int \<Rightarrow> int
    \<Rightarrow> (error + Address) option" where
  "recoverPlain X sighash R S Vb =
     (if 8 < BitLen Vb then Some (Inl ErrInvalidSig)
      else
        (let V = recovery_id Vb in
         if \<not> ValidateSignatureValues X V R S then Some (Inl ErrInvalidSig)
         else if 32 < length (Bytes R) \<or> 32 < length (Bytes S) then None
         else
           (case Ecrecover X (hash_bytes sighash) (signature65 R S V) of
              Inl err \<Rightarrow> Some (Inl err)
            | Inr pub \<Rightarrow>
                if length pub = 0 \<or> hd pub \<noteq> 4 then Some (Inl ErrInvalidPublicKey)
                else Some (Inr (drop 12 (hash_bytes (Keccak256 X (tl pub))))))))"

text \<open>
  \<^verbatim>\<open>Check.Sender\<close>: \<^verbatim>\<open>recoverPlain(check.Hash(), check.R, check.S,
  check.V)\<close>. A nil \<^verbatim>\<open>V\<close>, \<^verbatim>\<open>R\<close> or \<^verbatim>\<open>S\<close> is dereferenced there:
  a panic.
\<close>

definition Sender :: "externals \<Rightarrow> Check \<Rightarrow> (error + Address) option" where
  "Sender X check =
     (case (chk_R check, chk_S check, chk_V check) of
        (Some R, Some S, Some V) \<Rightarrow> recoverPlain X (Hash X check) R S V
      | _ \<Rightarrow> None)"



text \<open>
  Simple functions in the place of the parameters, for concrete runs only: an encoder
  that writes one byte for an integer of 64 bits, the bytes of a coin symbol
  and the magnitude bytes of a big integer; a digest that reads the bytes as
  a number in base 257; a decoder that fills the eight fields of a check
  from the first eight bytes of the buffer, in order, and reports an error
  unless the buffer has exactly eight bytes; a validation that accepts the
  recovery ids 0 and 1 with \<open>R\<close> and \<open>S\<close> from 1 to \<open>2 ^ 255 - 1\<close>; and a
  recovery that answers the tag 4 followed by the first 64 bytes of the
  signature.
\<close>

fun toy_item :: "rlp_item \<Rightarrow> byte list" where
  "toy_item (RlpUint64 w) = [ucast w]"
| "toy_item (RlpCoin c) = c"
| "toy_item (RlpBig None) = [128]"
| "toy_item (RlpBig (Some i)) = Bytes i"

definition toy_digest :: "byte list \<Rightarrow> Hash" where
  "toy_digest bs = foldl (\<lambda>h b. 257 * h + ucast b) 0 bs"

definition toy_big :: "byte list \<Rightarrow> nat \<Rightarrow> int option" where
  "toy_big buf i = (if i < length buf then Some (uint (buf ! i)) else None)"

definition toy_Decode :: "byte list \<Rightarrow> Check \<times> error option" where
  "toy_Decode buf =
     (\<lparr>chk_Nonce = (if 0 < length buf then ucast (buf ! 0) else 0),
       chk_DueBlock = (if 1 < length buf then ucast (buf ! 1) else 0),
       chk_Coin = (if 2 < length buf then [buf ! 2] else []),
       chk_Value = toy_big buf 3, chk_Lock = toy_big buf 4,
       chk_V = toy_big buf 5, chk_R = toy_big buf 6, chk_S = toy_big buf 7\<rparr>,
      if length buf < 8 then Some (ErrExternal ''too few elements'')
      else if 8 < length buf then Some (ErrExternal ''too many elements'')
      else None)"

definition externals0 :: externals where
  "externals0 =
     \<lparr>rlp_Encode = (\<lambda>items. concat (map toy_item items)),
      sha3_Keccak256 = toy_digest,
      rlp_Decode = toy_Decode,
      ValidateSignatureValues =
        (\<lambda>v r s. v \<le> 1 \<and> 1 \<le> r \<and> r < 2 ^ 255 \<and> 1 \<le> s \<and> s < 2 ^ 255),
      Ecrecover =
        (\<lambda>hash sig. if length sig \<noteq> 65 then Inl (ErrExternal ''invalid signature length'')
                     else Inr (4 # take 64 sig)),
      Keccak256 = toy_digest\<rparr>"

definition check0 :: Check where
  "check0 = \<lparr>chk_Nonce = 1, chk_DueBlock = 1000, chk_Coin = [77], chk_Value = Some 100,
             chk_Lock = Some 5, chk_V = Some 27, chk_R = Some 1, chk_S = Some 2\<rparr>"

section \<open>Properties of state objects\<close>

subsection \<open>The dirty callback fires at most once\<close>

lemma fire_onDirty_calls:
  "fire_onDirty st s = (st', s') \<Longrightarrow>
     dirty_calls st' = dirty_calls st @ (case onDirty s of None \<Rightarrow> [] | Some f \<Rightarrow> [(f, address s)])
     \<and> onDirty s' = None \<and> address s' = address s \<and> tables st' = tables st
     \<and> next_ref st' = next_ref st \<and> data s' = data s"
  by (auto simp: fire_onDirty_def split: option.splits)

lemma call_dirty:
  assumes "call st s m = (st', s')"
  shows "dirty_calls st' = dirty_calls st @
           (if mutating m then (case onDirty s of None \<Rightarrow> [] | Some f \<Rightarrow> [(f, address s)]) else [])
         \<and> onDirty s' = (if mutating m then None else onDirty s)
         \<and> address s' = address s"
  using assms
  by (cases m)
     (auto simp: SetBalance_def setBalance_def AddBalance_def SubBalance_def SetNonce_def
        setNonce_def markSuicided_def touch_def empty_object_def make_map_def Let_def
        fire_onDirty_def
        split: option.splits if_splits prod.splits)

lemma calls_dirty:
  "calls st s ms = (st', s') \<Longrightarrow>
     dirty_calls st' = dirty_calls st @
        (if (\<exists>m\<in>set ms. mutating m)
         then (case onDirty s of None \<Rightarrow> [] | Some f \<Rightarrow> [(f, address s)]) else [])
     \<and> onDirty s' = (if (\<exists>m\<in>set ms. mutating m) then None else onDirty s)
     \<and> address s' = address s"
proof (induction ms arbitrary: st s)
  case Nil
  then show ?case by simp
next
  case (Cons m ms)
  obtain st1 s1 where c: "call st s m = (st1, s1)" by (cases "call st s m")
  with Cons.prems have r: "calls st1 s1 ms = (st', s')" by simp
  note h = call_dirty [OF c] Cons.IH [OF r]
  show ?case
  proof (cases "mutating m")
    case True
    with h show ?thesis by (auto split: option.splits)
  next
    case False
    with h show ?thesis by (auto split: option.splits)
  qed
qed

lemma newObject_fields:
  "newObject st addr d cb = (st1, s) \<Longrightarrow>
     onDirty s = cb \<and> address s = addr \<and> dirty_calls st1 = dirty_calls st"
  by (auto simp: newObject_def make_map_def split: option.splits)

text \<open>
  Claim C4. A state object is constructed by \<^verbatim>\<open>newObject\<close> with the
  callback \<open>cb\<close>, and any sequence \<open>ms\<close> of calls (SetBalance, AddBalance,
  SubBalance, SetNonce, markSuicided, touch) is made on it. The calls that
  the sequence adds to the record of callback invocations are: nothing
  when no callback was supplied or no call of the sequence is mutating, and
  otherwise exactly one invocation of \<open>cb\<close>, with the object's address. So the
  callback is invoked at most once, however long the sequence is; it is the
  first mutating call that fires it (the statement holds for every prefix of
  the sequence), and from then on the stored reference is nil.
\<close>

theorem dirty_callback_at_most_once:
  assumes "newObject st addr d cb = (st1, s)" and "calls st1 s ms = (st2, s2)"
  shows "dirty_calls st2 = dirty_calls st @
           (case cb of None \<Rightarrow> []
            | Some f \<Rightarrow> if (\<exists>m\<in>set ms. mutating m) then [(f, addr)] else [])
         \<and> length (dirty_calls st2) \<le> length (dirty_calls st) + 1
         \<and> onDirty s2 = (if (\<exists>m\<in>set ms. mutating m) then None else cb)"
  using newObject_fields [OF assms(1)] calls_dirty [OF assms(2)]
  by (auto split: option.splits)

theorem dirty_callback_at_most_once_witness:
  "(let acct = \<lparr>acc_Nonce = 0, acc_Balance_Data = None, acc_Root = []\<rparr>;
        ms = [CallAddBalance [77] 0, CallSetBalance [77] 5, CallSetNonce 1, CallTouch,
              CallSubBalance [77] 2, CallMarkSuicided];
        new = newObject store0 [1] acct (Some 7);
        run = calls (fst new) (snd new) ms
    in dirty_calls (fst run) = [(7, [1])] \<and> onDirty (snd run) = None)"
  using dirty_callback_at_most_once
    [of store0 "[1]" "\<lparr>acc_Nonce = 0, acc_Balance_Data = None, acc_Root = []\<rparr>" "Some 7"
        "fst (newObject store0 [1] \<lparr>acc_Nonce = 0, acc_Balance_Data = None, acc_Root = []\<rparr> (Some 7))"
        "snd (newObject store0 [1] \<lparr>acc_Nonce = 0, acc_Balance_Data = None, acc_Root = []\<rparr> (Some 7))"
        "[CallAddBalance [77] 0, CallSetBalance [77] 5, CallSetNonce 1, CallTouch,
          CallSubBalance [77] 2, CallMarkSuicided]"
        "fst (calls (fst (newObject store0 [1] \<lparr>acc_Nonce = 0, acc_Balance_Data = None, acc_Root = []\<rparr> (Some 7)))
               (snd (newObject store0 [1] \<lparr>acc_Nonce = 0, acc_Balance_Data = None, acc_Root = []\<rparr> (Some 7)))
               [CallAddBalance [77] 0, CallSetBalance [77] 5, CallSetNonce 1, CallTouch,
                CallSubBalance [77] 2, CallMarkSuicided])"
        "snd (calls (fst (newObject store0 [1] \<lparr>acc_Nonce = 0, acc_Balance_Data = None, acc_Root = []\<rparr> (Some 7)))
               (snd (newObject store0 [1] \<lparr>acc_Nonce = 0, acc_Balance_Data = None, acc_Root = []\<rparr> (Some 7)))
               [CallAddBalance [77] 0, CallSetBalance [77] 5, CallSetNonce 1, CallTouch,
                CallSubBalance [77] 2, CallMarkSuicided])"]
  by (simp add: store0_def Let_def)

subsection \<open>deepCopy and the balance table\<close>

lemma newObject_Data:
  "newObject st addr d cb = (st1, s) \<Longrightarrow> acc_Balance_Data (data s) \<noteq> None"
  by (auto simp: newObject_def make_map_def split: option.splits)

text \<open>
  An object made by \<^verbatim>\<open>newObject\<close> has a non-nil map. Its copy then holds
  the same map reference, and a balance written through the copy is read
  back from the original.
\<close>

lemma deepCopy_shares_table:
  assumes "acc_Balance_Data (data s) = Some r"
    and "deepCopy st s cb = (st1, c)"
    and "SetBalance st1 c coin v = (st2, c')"
  shows "acc_Balance_Data (data c) = Some r \<and> Balance st2 s coin = v"
  using assms
  by (auto simp: deepCopy_def newObject_def SetBalance_def setBalance_def fire_onDirty_def
        Balance_def Let_def update_conv' split: option.splits prod.splits)

text \<open>
  Claim C2 says that a balance mutation on the copy returned by
  \<^verbatim>\<open>deepCopy\<close> leaves the balances of the original unchanged. The code
  does otherwise: \<^verbatim>\<open>deepCopy\<close> passes \<^verbatim>\<open>self.data\<close> to
  \<^verbatim>\<open>newObject\<close>, which copies the \<^verbatim>\<open>Account\<close> struct but not the
  map its \<^verbatim>\<open>Balance.Data\<close> field refers to. Here a fresh account at
  address \<open>[1]\<close> is copied and \<^verbatim>\<open>SetBalance\<close> of 5 units of coin \<open>[77]\<close>
  is called on the copy: the original's balance of that coin was 0 before
  the call and is 5 after it. Then \<^verbatim>\<open>AddBalance\<close> of 3 units is called on
  the original: the copy's balance goes from 5 to 8. Both objects hold the
  same map reference.
\<close>

theorem deepCopy_SetBalance_reaches_original:
  "(let acct = \<lparr>acc_Nonce = 0, acc_Balance_Data = None, acc_Root = []\<rparr>;
        (st1, orig) = newObject store0 [1] acct (Some 1);
        (st2, copy) = deepCopy st1 orig (Some 2);
        (st3, copy') = SetBalance st2 copy [77] 5;
        (st4, orig') = AddBalance st3 orig [77] 3
    in Balance st2 orig [77] = 0 \<and> Balance st3 orig [77] = 5
       \<and> Balance st3 copy' [77] = 5 \<and> Balance st4 copy' [77] = 8
       \<and> acc_Balance_Data (data copy) = acc_Balance_Data (data orig))"
  by (simp add: store0_def newObject_def make_map_def deepCopy_def SetBalance_def AddBalance_def
        setBalance_def fire_onDirty_def Balance_def Let_def)

section \<open>Properties of the canonical encoding of balances\<close>

lemma set_insert_Slice: "set (insert_Slice lt x ys) = insert x (set ys)"
  by (induction ys) auto

lemma set_sort_Slice: "set (sort_Slice lt xs) = set xs"
  by (induction xs) (auto simp: sort_Slice_def set_insert_Slice)

lemma distinct_insert_Slice:
  "distinct (insert_Slice lt x ys) = (x \<notin> set ys \<and> distinct ys)"
  by (induction ys) (auto simp: set_insert_Slice)

lemma distinct_sort_Slice: "distinct (sort_Slice lt xs) = distinct xs"
proof (induction xs)
  case Nil
  show ?case by (simp add: sort_Slice_def)
next
  case (Cons x xs)
  have "sort_Slice lt (x # xs) = insert_Slice lt x (sort_Slice lt xs)"
    by (simp add: sort_Slice_def)
  with Cons show ?case
    by (simp add: distinct_insert_Slice set_sort_Slice)
qed

lemma descending_insert_Slice:
  "descending ys \<Longrightarrow> descending (insert_Slice coin_less x ys)"
  by (induction ys) (auto simp: set_insert_Slice coin_less_def)

lemma descending_sort_Slice: "descending (sort_Slice coin_less xs)"
proof (induction xs)
  case Nil
  show ?case by (simp add: sort_Slice_def)
next
  case (Cons x xs)
  have "sort_Slice coin_less (x # xs) = insert_Slice coin_less x (sort_Slice coin_less xs)"
    by (simp add: sort_Slice_def)
  with Cons show ?case by (simp add: descending_insert_Slice)
qed

lemma set_getCoins: "set (getCoins b) = {k. \<exists>v. (k, v) \<in> set b \<and> 0 < v}"
  by (force simp: getCoins_def set_sort_Slice)

lemma distinct_getCoins: "distinct (map fst b) \<Longrightarrow> distinct (getCoins b)"
  by (simp add: getCoins_def distinct_sort_Slice distinct_map_filter)

lemma descending_getCoins: "descending (getCoins b)"
  by (simp add: getCoins_def descending_sort_Slice)

lemma getCoins_in_table:
  assumes "distinct (map fst b)" and "k \<in> set (getCoins b)"
  shows "0 < index_table b k \<and> map_of b k = Some (index_table b k)"
proof -
  from assms(2) obtain v where v: "(k, v) \<in> set b" "0 < v"
    by (auto simp: set_getCoins)
  with assms(1) have "map_of b k = Some v" by simp
  with v show ?thesis by (simp add: index_table_def)
qed

lemma positive_in_getCoins:
  "map_of b k = Some v \<Longrightarrow> 0 < v \<Longrightarrow> k \<in> set (getCoins b)"
  by (auto simp: set_getCoins dest: map_of_SomeD)

lemma map_of_foldl_update:
  "map_of (foldl (\<lambda>m v. AList.update (bal_Coin v) (bal_Amount v) m) m0 es) =
     foldl (\<lambda>f v. f(bal_Coin v \<mapsto> bal_Amount v)) (map_of m0) es"
  by (induction es arbitrary: m0) (simp_all add: update_conv')

lemma foldl_upd_distinct:
  "distinct (map bal_Coin es) \<Longrightarrow>
   foldl (\<lambda>f v. f(bal_Coin v \<mapsto> bal_Amount v)) Map.empty es k = Some a
     \<longleftrightarrow> \<lparr>bal_Coin = k, bal_Amount = a\<rparr> \<in> set es"
proof (induction es rule: rev_induct)
  case Nil
  show ?case by simp
next
  case (snoc e es)
  then have d: "distinct (map bal_Coin es)" and n: "bal_Coin e \<notin> bal_Coin ` set es"
    by auto
  show ?case
  proof (cases "k = bal_Coin e")
    case True
    have "\<lparr>bal_Coin = k, bal_Amount = a\<rparr> \<notin> set es"
    proof
      assume "\<lparr>bal_Coin = k, bal_Amount = a\<rparr> \<in> set es"
      then have "bal_Coin \<lparr>bal_Coin = k, bal_Amount = a\<rparr> \<in> bal_Coin ` set es"
        by (rule imageI)
      with n True show False by simp
    qed
    moreover have "(\<lparr>bal_Coin = k, bal_Amount = a\<rparr> = e) = (a = bal_Amount e)"
      using True by (cases e) auto
    ultimately show ?thesis using True by auto
  next
    case False
    then have "\<lparr>bal_Coin = k, bal_Amount = a\<rparr> \<noteq> e" by auto
    with False snoc.IH [OF d] show ?thesis by simp
  qed
qed

lemma decode_of_encoded:
  assumes "distinct (map fst b)"
  shows "map_of (foldl (\<lambda>m v. AList.update (bal_Coin v) (bal_Amount v) m) [] (encoded_balances b)) k = Some a
           \<longleftrightarrow> map_of b k = Some a \<and> 0 < a"
proof -
  have d: "distinct (map bal_Coin (encoded_balances b))"
    using distinct_getCoins [OF assms] by (simp add: encoded_balances_def comp_def)
  have "\<lparr>bal_Coin = k, bal_Amount = a\<rparr> \<in> set (encoded_balances b)
          \<longleftrightarrow> k \<in> set (getCoins b) \<and> a = index_table b k"
    by (auto simp: encoded_balances_def)
  also have "\<dots> \<longleftrightarrow> map_of b k = Some a \<and> 0 < a"
    using getCoins_in_table [OF assms, of k] positive_in_getCoins [of b k a]
    by (auto simp: index_table_def)
  finally show ?thesis
    by (simp add: map_of_foldl_update foldl_upd_distinct [OF d])
qed

lemma encoded_positive:
  "distinct (map fst b) \<Longrightarrow> e \<in> set (encoded_balances b) \<Longrightarrow> 0 < bal_Amount e"
  by (auto simp: encoded_balances_def dest: getCoins_in_table)

lemma encoded_nth_Coin:
  "i < length (encoded_balances b) \<Longrightarrow> bal_Coin (encoded_balances b ! i) = getCoins b ! i"
  by (simp add: encoded_balances_def)

lemma encoded_order:
  assumes "i < length (encoded_balances b)" and "j < length (encoded_balances b)"
    and "coin_value (bal_Coin (encoded_balances b ! j)) < coin_value (bal_Coin (encoded_balances b ! i))"
  shows "i < j"
proof (rule ccontr)
  assume "\<not> i < j"
  then consider "i = j" | "j < i" by linarith
  then show False
  proof cases
    case 1
    with assms(3) show False by simp
  next
    case 2
    have "i < length (getCoins b)" using assms(1) by (simp add: encoded_balances_def)
    with 2 have "coin_value (getCoins b ! i) \<le> coin_value (getCoins b ! j)"
      using sorted_wrt_nth_less [OF descending_getCoins, of j i b] by simp
    with assms show False by (simp add: encoded_nth_Coin)
  qed
qed

text \<open>
  Claim C5. Let \<open>b\<close> be the content of a Balances map (each key once) whose
  amounts are all non-negative, as the data model has it, and let the
  byte-level codec return the list of entries it was given. Then
  \<^verbatim>\<open>EncodeRLP\<close> succeeds, \<^verbatim>\<open>DecodeRLP\<close> into a fresh map succeeds, and
  the decoded map has, for every non-zero amount \<open>a\<close>, the entry \<open>k \<mapsto> a\<close>
  exactly when \<open>b\<close> has it; and no entry handed to the encoder has amount
  zero. (The source filters by \<^verbatim>\<open>v.Cmp(types.Big0) > 0\<close>; without the
  assumption on the amounts, lemma \<open>decode_of_encoded\<close> gives the same
  for the entries with a positive amount.)
\<close>

theorem balances_roundtrip:
  assumes "distinct (map fst b)"
    and "list_all (\<lambda>(k, v). 0 \<le> v) b"
    and "encode (encoded_balances b) = Inr w"
    and "decode w = Inr (encoded_balances b)"
  shows "\<exists>b'. EncodeRLP encode b = Inr w \<and> DecodeRLP decode [] w = Inr b'
           \<and> (\<forall>k a. a \<noteq> 0 \<longrightarrow> (map_of b' k = Some a \<longleftrightarrow> map_of b k = Some a))
           \<and> (\<forall>e \<in> set (encoded_balances b). bal_Amount e \<noteq> 0)"
proof -
  let ?b' = "foldl (\<lambda>m v. AList.update (bal_Coin v) (bal_Amount v) m) [] (encoded_balances b)"
  have dec: "DecodeRLP decode [] w = Inr ?b'"
    by (simp add: DecodeRLP_def assms(4))
  have nn: "map_of b k = Some a \<Longrightarrow> 0 \<le> a" for k a
    using assms(2) by (auto simp: list_all_iff dest!: map_of_SomeD)
  have eq: "a \<noteq> 0 \<longrightarrow> (map_of ?b' k = Some a \<longleftrightarrow> map_of b k = Some a)" for k a
    using decode_of_encoded [OF assms(1), of k a] nn [of k a] by auto
  have nz: "\<forall>e \<in> set (encoded_balances b). bal_Amount e \<noteq> 0"
    using encoded_positive [OF assms(1)] by fastforce
  show ?thesis
    using dec eq nz assms(3) by (auto simp: EncodeRLP_def)
qed

theorem balances_roundtrip_witness:
  "EncodeRLP Inr table0 = Inr (encoded_balances table0)
   \<and> (\<exists>b'. DecodeRLP Inr [] (encoded_balances table0) = Inr b'
         \<and> map_of b' [2, 0] = Some 7 \<and> map_of b' [0, 3] \<noteq> Some 5)"
proof -
  have h: "distinct (map fst table0)" "list_all (\<lambda>(k, v). 0 \<le> v) table0"
    "(Inr (encoded_balances table0) :: error + Balance_entry list) = Inr (encoded_balances table0)"
    by (simp_all add: table0_def)
  have m: "map_of table0 [2, 0] = Some 7" "map_of table0 [0, 3] \<noteq> Some 5"
    by (simp_all add: table0_def)
  from balances_roundtrip [of table0 Inr "encoded_balances table0" Inr, OF h h(3)]
  obtain b' where b': "EncodeRLP Inr table0 = (Inr (encoded_balances table0) :: error + Balance_entry list)"
     "DecodeRLP Inr [] (encoded_balances table0) = Inr b'"
     "\<forall>k a. a \<noteq> 0 \<longrightarrow> (map_of b' k = Some a \<longleftrightarrow> map_of table0 k = Some a)"
    by blast
  from b'(3) m have "map_of b' [2, 0] = Some 7" "map_of b' [0, 3] \<noteq> Some 5" by auto
  with b'(1,2) show ?thesis by blast
qed

text \<open>
  Claim C6. Let the Balances map \<open>b\<close> hold the coins \<open>x\<close> and \<open>y\<close> with
  positive amounts (an entry with another amount is not serialized at all),
  the numeric value of \<open>x\<close> greater than that of \<open>y\<close>. Then both entries
  are in the list handed to the encoder, the entry of \<open>x\<close> at a position
  before the entry of \<open>y\<close>; and wherever in that list an entry of \<open>x\<close> and
  an entry of \<open>y\<close> stand, the one of \<open>x\<close> comes first.
\<close>

theorem higher_coin_encoded_first:
  assumes "map_of b x = Some vx" and "0 < vx" and "map_of b y = Some vy" and "0 < vy"
    and "coin_value y < coin_value x"
  shows "\<exists>i j. i < j \<and> j < length (encoded_balances b)
           \<and> encoded_balances b ! i = \<lparr>bal_Coin = x, bal_Amount = vx\<rparr>
           \<and> encoded_balances b ! j = \<lparr>bal_Coin = y, bal_Amount = vy\<rparr>
           \<and> (\<forall>i' j'. i' < length (encoded_balances b) \<and> j' < length (encoded_balances b)
                 \<and> bal_Coin (encoded_balances b ! i') = x \<and> bal_Coin (encoded_balances b ! j') = y
                 \<longrightarrow> i' < j')"
proof -
  let ?E = "encoded_balances b"
  have len: "length ?E = length (getCoins b)" by (simp add: encoded_balances_def)
  from assms(1,2) have "x \<in> set (getCoins b)" by (rule positive_in_getCoins)
  then obtain i where i: "i < length (getCoins b)" "getCoins b ! i = x"
    by (auto simp: in_set_conv_nth)
  from assms(3,4) have "y \<in> set (getCoins b)" by (rule positive_in_getCoins)
  then obtain j where j: "j < length (getCoins b)" "getCoins b ! j = y"
    by (auto simp: in_set_conv_nth)
  have ei: "?E ! i = \<lparr>bal_Coin = x, bal_Amount = vx\<rparr>"
    using i assms(1) by (simp add: encoded_balances_def index_table_def)
  have ej: "?E ! j = \<lparr>bal_Coin = y, bal_Amount = vy\<rparr>"
    using j assms(3) by (simp add: encoded_balances_def index_table_def)
  have ord: "i' < j'" if "i' < length ?E" "j' < length ?E"
      "bal_Coin (?E ! i') = x" "bal_Coin (?E ! j') = y" for i' j'
    using that assms(5) encoded_order [of i' b j'] by simp
  have "i < j" using ord [of i j] i j ei ej len by simp
  with j ei ej ord len show ?thesis by auto
qed

theorem higher_coin_encoded_first_witness:
  "\<exists>i j. i < j \<and> j < length (encoded_balances table0)
     \<and> encoded_balances table0 ! i = \<lparr>bal_Coin = [2, 0], bal_Amount = 7\<rparr>
     \<and> encoded_balances table0 ! j = \<lparr>bal_Coin = [0, 4], bal_Amount = 1\<rparr>"
proof -
  have h: "map_of table0 [2, 0] = Some 7" "(0::int) < 7" "map_of table0 [0, 4] = Some 1"
    "(0::int) < 1" "coin_value [0, 4] < coin_value [2, 0]"
    by (simp_all add: table0_def coin_value_def)
  from higher_coin_encoded_first [OF h] show ?thesis by blast
qed

section \<open>Properties of the delegation transaction\<close>

lemma gas_coin_commission_defined:
  "CoinExists context (tx_GasCoin tx) \<Longrightarrow> gas_coin_commission P tx context \<noteq> None"
  by (auto simp: gas_coin_commission_def CoinExists_def GetStateCoin_def split: option.splits)

lemma gas_coin_commission_Inl:
  "gas_coin_commission P tx context = Some (Inl r) \<Longrightarrow> Code r = CoinReserveNotSufficient"
  by (auto simp: gas_coin_commission_def failure_def split: if_splits option.splits)

lemma Run_gas_coin_missing:
  "\<not> CoinExists context (tx_GasCoin tx) \<Longrightarrow>
   Run P d sender tx context isCheck rewardPool blk =
     Some (failure CoinNotExists (LogCoinNotExists (tx_GasCoin tx)), context, rewardPool)"
  by (simp add: Run_def)

lemma Run_returns: "Run P d sender tx context isCheck rewardPool blk \<noteq> None"
proof (cases "CoinExists context (tx_GasCoin tx)")
  case False
  then show ?thesis by (simp add: Run_gas_coin_missing)
next
  case True
  from gas_coin_commission_defined [OF True, of P]
  obtain x where "gas_coin_commission P tx context = Some x" by auto
  with True show ?thesis
    by (cases x) (simp_all add: Run_def Let_def)
qed

lemma Run_isCheck:
  assumes "Run P d sender tx context False rewardPool blk = Some (r, context', rewardPool')"
  shows "Run P d sender tx context True rewardPool blk = Some (r, context, rewardPool)"
  using assms
  by (auto simp: Run_def Let_def split: if_splits option.splits sum.splits)

lemma Run_failure:
  assumes "Run P d sender tx context isCheck rewardPool blk = Some (r, context', rewardPool')"
    and "Code r \<noteq> OK"
  shows "context' = context \<and> rewardPool' = rewardPool"
  using assms
  by (auto simp: Run_def Let_def split: if_splits option.splits sum.splits)

lemma Run_commit:
  assumes "Run P d sender tx context False rewardPool blk = Some (r, context', rewardPool')"
    and "Code r = OK"
  shows "\<exists>commission. gas_coin_commission P tx context = Some (Inr commission)
           \<and> r = \<lparr>Code = OK, Log = NoLog, GasUsed = tx_Gas tx, GasWanted = tx_Gas tx\<rparr>
           \<and> rewardPool' = rewardPool + commissionInBaseCoin P tx
           \<and> context' = StateDB_SetNonce
                (Delegate
                  (StateDB_SubBalance
                    (StateDB_SubBalance context sender (tx_GasCoin tx) commission)
                    sender (dd_Coin d) (dd_Stake d))
                  sender (dd_PubKey d) (dd_Coin d) (dd_Stake d))
                sender (tx_Nonce tx)"
  using assms
  by (auto simp: Run_def Let_def failure_def split: if_splits option.splits sum.splits
        dest: gas_coin_commission_Inl)

lemma GetBalance_SubBalance:
  "GetBalance (StateDB_SubBalance db addr symbol amount) a c =
     GetBalance db a c - (if a = addr \<and> c = symbol then amount else 0)"
  by (simp add: GetBalance_def StateDB_SubBalance_def)

lemma effects:
  "context' = StateDB_SetNonce
                (Delegate
                  (StateDB_SubBalance
                    (StateDB_SubBalance context sender gas commission)
                    sender coin stake)
                  sender pubkey coin stake)
                sender nonce \<Longrightarrow>
   GetBalance context' a c =
       GetBalance context a c - (if a = sender \<and> c = gas then commission else 0)
                              - (if a = sender \<and> c = coin then stake else 0)
   \<and> db_nonces context' = (db_nonces context)(sender := nonce)
   \<and> db_delegations context' = db_delegations context @ [(sender, pubkey, coin, stake)]
   \<and> db_coins context' = db_coins context
   \<and> db_candidates context' = db_candidates context"
  by (simp add: GetBalance_def StateDB_SubBalance_def StateDB_SetNonce_def Delegate_def)

lemma gas_coin_commission0: "gas_coin_commission params0 tx0 statedb0 = Some (Inr 50)"
  by (simp add: gas_coin_commission_def params0_def tx0_def commissionInBaseCoin_def)

text \<open>
  Claim C1. For every input, \<^verbatim>\<open>Run\<close> returns (it does not panic), and the
  call with \<^verbatim>\<open>isCheck\<close> true returns the response of the call with
  \<^verbatim>\<open>isCheck\<close> false and leaves the state and the reward pool as they
  were. The call with \<^verbatim>\<open>isCheck\<close> false, when its code is OK, adds the
  commission in the base coin to the reward pool, takes the commission (in
  the gas coin) from the sender's balance of the gas coin and the stake from
  the sender's balance of the stake coin, leaves every other balance, the
  coins and the candidates as they were, records the delegation and sets the
  sender's nonce to the transaction's; when its code is not OK it changes
  nothing.
\<close>

theorem mutation_gate:
  "\<exists>r context' rewardPool'.
      Run P d sender tx context False rewardPool blk = Some (r, context', rewardPool')
    \<and> Run P d sender tx context True rewardPool blk = Some (r, context, rewardPool)
    \<and> (if Code r = OK then
         (\<exists>commission. gas_coin_commission P tx context = Some (Inr commission)
            \<and> rewardPool' = rewardPool + commissionInBaseCoin P tx
            \<and> (\<forall>a c. GetBalance context' a c =
                  GetBalance context a c
                    - (if a = sender \<and> c = tx_GasCoin tx then commission else 0)
                    - (if a = sender \<and> c = dd_Coin d then dd_Stake d else 0))
            \<and> db_delegations context' =
                  db_delegations context @ [(sender, dd_PubKey d, dd_Coin d, dd_Stake d)]
            \<and> db_nonces context' = (db_nonces context)(sender := tx_Nonce tx)
            \<and> db_coins context' = db_coins context
            \<and> db_candidates context' = db_candidates context)
       else context' = context \<and> rewardPool' = rewardPool)"
proof -
  obtain r c' rewardPool'
    where run: "Run P d sender tx context False rewardPool blk = Some (r, c', rewardPool')"
    using Run_returns [of P d sender tx "context" False rewardPool blk] by auto
  note chk = Run_isCheck [OF run]
  show ?thesis
  proof (cases "Code r = OK")
    case True
    from Run_commit [OF run True] obtain commission where
      c: "gas_coin_commission P tx context = Some (Inr commission)"
         "rewardPool' = rewardPool + commissionInBaseCoin P tx"
         "c' = StateDB_SetNonce
                (Delegate
                  (StateDB_SubBalance
                    (StateDB_SubBalance context sender (tx_GasCoin tx) commission)
                    sender (dd_Coin d) (dd_Stake d))
                  sender (dd_PubKey d) (dd_Coin d) (dd_Stake d))
                sender (tx_Nonce tx)"
      by blast
    note e = effects [OF c(3)]
    have "Run P d sender tx context False rewardPool blk = Some (r, c', rewardPool')
      \<and> Run P d sender tx context True rewardPool blk = Some (r, context, rewardPool)
      \<and> (if Code r = OK then
         (\<exists>commission. gas_coin_commission P tx context = Some (Inr commission)
            \<and> rewardPool' = rewardPool + commissionInBaseCoin P tx
            \<and> (\<forall>a c. GetBalance c' a c =
                  GetBalance context a c
                    - (if a = sender \<and> c = tx_GasCoin tx then commission else 0)
                    - (if a = sender \<and> c = dd_Coin d then dd_Stake d else 0))
            \<and> db_delegations c' =
                  db_delegations context @ [(sender, dd_PubKey d, dd_Coin d, dd_Stake d)]
            \<and> db_nonces c' = (db_nonces context)(sender := tx_Nonce tx)
            \<and> db_coins c' = db_coins context
            \<and> db_candidates c' = db_candidates context)
       else c' = context \<and> rewardPool' = rewardPool)"
      using run chk True c(1,2) e by simp
    then show ?thesis by blast
  next
    case False
    from Run_failure [OF run False] run chk False show ?thesis by auto
  qed
qed

theorem mutation_gate_witness:
  "Run params0 delegate0 [9] tx0 statedb0 True 0 1 =
     Some (\<lparr>Code = OK, Log = NoLog, GasUsed = 10, GasWanted = 10\<rparr>, statedb0, 0)
   \<and> (\<exists>c'. Run params0 delegate0 [9] tx0 statedb0 False 0 1 =
           Some (\<lparr>Code = OK, Log = NoLog, GasUsed = 10, GasWanted = 10\<rparr>, c', 50)
         \<and> GetBalance c' [9] [1] = 950 \<and> GetBalance c' [9] [2] = 100
         \<and> db_nonces c' [9] = 1 \<and> db_delegations c' = [([9], [5], [2], 400)])"
proof -
  have chk: "Run params0 delegate0 [9] tx0 statedb0 True 0 1 =
     Some (\<lparr>Code = OK, Log = NoLog, GasUsed = 10, GasWanted = 10\<rparr>, statedb0, 0)"
    by (simp add: Run_def gas_coin_commission_def commissionInBaseCoin_def CoinExists_def
          CandidateExists_def GetBalance_def params0_def statedb0_def tx0_def delegate0_def)
  from mutation_gate [of params0 delegate0 "[9]" tx0 statedb0 0 1]
  obtain r c' rp' where
    run: "Run params0 delegate0 [9] tx0 statedb0 False 0 1 = Some (r, c', rp')"
    and same: "Run params0 delegate0 [9] tx0 statedb0 True 0 1 = Some (r, statedb0, 0)"
    and eff: "if Code r = OK then
         (\<exists>commission. gas_coin_commission params0 tx0 statedb0 = Some (Inr commission)
            \<and> rp' = 0 + commissionInBaseCoin params0 tx0
            \<and> (\<forall>a c. GetBalance c' a c =
                  GetBalance statedb0 a c
                    - (if a = [9] \<and> c = tx_GasCoin tx0 then commission else 0)
                    - (if a = [9] \<and> c = dd_Coin delegate0 then dd_Stake delegate0 else 0))
            \<and> db_delegations c' =
                  db_delegations statedb0 @ [([9], dd_PubKey delegate0, dd_Coin delegate0, dd_Stake delegate0)]
            \<and> db_nonces c' = (db_nonces statedb0)([9] := tx_Nonce tx0)
            \<and> db_coins c' = db_coins statedb0
            \<and> db_candidates c' = db_candidates statedb0)
       else c' = statedb0 \<and> rp' = 0"
    by blast
  from chk same have r: "r = \<lparr>Code = OK, Log = NoLog, GasUsed = 10, GasWanted = 10\<rparr>" by simp
  with eff have
    rp: "rp' = 0 + commissionInBaseCoin params0 tx0"
    and bal: "\<And>a c. GetBalance c' a c =
                  GetBalance statedb0 a c
                    - (if a = [9] \<and> c = tx_GasCoin tx0 then 50 else 0)
                    - (if a = [9] \<and> c = dd_Coin delegate0 then dd_Stake delegate0 else 0)"
    and del: "db_delegations c' =
                  db_delegations statedb0 @ [([9], dd_PubKey delegate0, dd_Coin delegate0, dd_Stake delegate0)]"
    and non: "db_nonces c' = (db_nonces statedb0)([9] := tx_Nonce tx0)"
    by (simp_all add: gas_coin_commission0)
  have "rp' = 50" using rp by (simp add: commissionInBaseCoin_def params0_def tx0_def)
  moreover have "GetBalance c' [9] [1] = 950" "GetBalance c' [9] [2] = 100"
    using bal [of "[9]" "[1]"] bal [of "[9]" "[2]"]
    by (simp_all add: GetBalance_def statedb0_def tx0_def delegate0_def)
  moreover have "db_nonces c' [9] = 1" "db_delegations c' = [([9], [5], [2], 400)]"
    by (simp_all add: non del statedb0_def tx0_def delegate0_def)
  ultimately show ?thesis using chk run r by blast
qed

text \<open>
  Claim C9. The gas coin is registered and is the stake coin, the steps
  before the balance checks yield the commission, and the sender's balance
  of that coin covers the commission and covers the stake but is less than
  their sum. Then \<^verbatim>\<open>Run\<close> returns the code InsufficientFunds, its log
  naming the sender, the sum and the coin, and the state and the reward pool
  are as they were, whatever \<^verbatim>\<open>isCheck\<close> is.
\<close>

theorem combined_cost_insufficient:
  assumes "CoinExists context (tx_GasCoin tx)"
    and "dd_Coin d = tx_GasCoin tx"
    and "gas_coin_commission P tx context = Some (Inr commission)"
    and "commission \<le> GetBalance context sender (tx_GasCoin tx)"
    and "dd_Stake d \<le> GetBalance context sender (tx_GasCoin tx)"
    and "GetBalance context sender (tx_GasCoin tx) < dd_Stake d + commission"
  shows "\<exists>r. Run P d sender tx context isCheck rewardPool blk = Some (r, context, rewardPool)
           \<and> Code r = InsufficientFunds
           \<and> Log r = LogInsufficientFunds sender (dd_Stake d + commission) (tx_GasCoin tx)"
  using assms by (simp add: Run_def failure_def)

theorem combined_cost_insufficient_witness:
  "\<exists>r. Run params0 (delegate0\<lparr>dd_Coin := [1], dd_Stake := 980\<rparr>) [9] tx0 statedb0 False 0 1 =
          Some (r, statedb0, 0)
      \<and> Code r = InsufficientFunds \<and> Log r = LogInsufficientFunds [9] 1030 [1]"
proof -
  have h: "CoinExists statedb0 (tx_GasCoin tx0)"
    "dd_Coin (delegate0\<lparr>dd_Coin := [1], dd_Stake := 980\<rparr>) = tx_GasCoin tx0"
    "gas_coin_commission params0 tx0 statedb0 = Some (Inr 50)"
    "50 \<le> GetBalance statedb0 [9] (tx_GasCoin tx0)"
    "dd_Stake (delegate0\<lparr>dd_Coin := [1], dd_Stake := 980\<rparr>) \<le> GetBalance statedb0 [9] (tx_GasCoin tx0)"
    "GetBalance statedb0 [9] (tx_GasCoin tx0) < dd_Stake (delegate0\<lparr>dd_Coin := [1], dd_Stake := 980\<rparr>) + 50"
    by (simp_all add: gas_coin_commission0)
       (simp_all add: CoinExists_def GetBalance_def statedb0_def tx0_def delegate0_def)
  from combined_cost_insufficient [OF h, of False 0 1]
  show ?thesis by (simp add: tx0_def)
qed

text \<open>
  Claim C3 says that \<^verbatim>\<open>Run\<close> returns CoinNotExists when the gas coin or
  the stake coin of the payload does not exist. The source checks
  \<^verbatim>\<open>context.CoinExists(tx.GasCoin)\<close> first (lemma
  \<open>Run_gas_coin_missing\<close>), and never checks \<^verbatim>\<open>data.Coin\<close>. Here the
  gas coin \<open>[1]\<close> is registered and the stake coin \<open>[3]\<close> is not, with a
  stake of 1: the code returned is InsufficientFunds, from the check of the
  sender's balance of the stake coin.
\<close>

theorem stake_coin_not_checked:
  "\<not> CoinExists statedb0 [3]
   \<and> Run params0 (delegate0\<lparr>dd_Coin := [3], dd_Stake := 1\<rparr>) [9] tx0 statedb0 False 0 1 =
       Some (failure InsufficientFunds (LogInsufficientFunds [9] 1 [3]), statedb0, 0)"
  by (simp add: Run_def CoinExists_def statedb0_def tx0_def delegate0_def params0_def
        gas_coin_commission_def commissionInBaseCoin_def GetBalance_def)

section \<open>Properties of signed checks\<close>

lemma nat_BitLen_less: "k < nat_BitLen n \<longleftrightarrow> 2 ^ k \<le> n"
proof (induction k arbitrary: n)
  case 0
  show ?case by (subst nat_BitLen.simps) auto
next
  case (Suc k)
  have "Suc k < nat_BitLen n \<longleftrightarrow> n \<noteq> 0 \<and> k < nat_BitLen (n div 2)"
    by (subst nat_BitLen.simps) auto
  also have "\<dots> \<longleftrightarrow> n \<noteq> 0 \<and> 2 ^ k \<le> n div 2" by (simp add: Suc.IH)
  also have "\<dots> \<longleftrightarrow> 2 ^ Suc k \<le> n"
  proof -
    define p :: nat where "p = 2 ^ k"
    have "0 < p" by (simp add: p_def)
    then have "(n \<noteq> 0 \<and> p \<le> n div 2) \<longleftrightarrow> 2 * p \<le> n"
      by (auto simp: less_eq_div_iff_mult_less_eq)
    then show ?thesis by (simp add: p_def)
  qed
  finally show ?case .
qed

lemma BitLen_gt_8: "8 < BitLen v \<longleftrightarrow> 256 \<le> \<bar>v\<bar>"
  by (simp add: BitLen_def nat_BitLen_less) linarith

lemma length_nat_Bytes: "length (nat_Bytes n) \<le> k \<longleftrightarrow> n < 256 ^ k"
proof (induction k arbitrary: n)
  case 0
  show ?case by (subst nat_Bytes.simps) auto
next
  case (Suc k)
  have "length (nat_Bytes n) \<le> Suc k \<longleftrightarrow> n = 0 \<or> length (nat_Bytes (n div 256)) \<le> k"
    by (subst nat_Bytes.simps) auto
  also have "\<dots> \<longleftrightarrow> n = 0 \<or> n div 256 < 256 ^ k" by (simp add: Suc.IH)
  also have "\<dots> \<longleftrightarrow> n < 256 ^ Suc k"
  proof -
    define p :: nat where "p = 256 ^ k"
    have "0 < p" by (simp add: p_def)
    then have "(n = 0 \<or> n div 256 < p) \<longleftrightarrow> n < 256 * p"
      by (auto simp: div_less_iff_less_mult)
    then show ?thesis by (simp add: p_def)
  qed
  finally show ?case .
qed

lemma length_Bytes: "length (Bytes x) \<le> 32 \<longleftrightarrow> \<bar>x\<bar> < 2 ^ 256"
  by (simp add: Bytes_def length_nat_Bytes) linarith

lemma length_hash_bytes: "length (hash_bytes h) = 32"
  by (simp add: hash_bytes_def)

lemma recovery_id_unat:
  assumes "27 \<le> \<bar>V\<bar>" and "\<bar>V\<bar> < 283"
  shows "unat (recovery_id V) = nat \<bar>V\<bar> - 27"
proof -
  define n where "n = nat \<bar>V\<bar>"
  have n: "27 \<le> n" "n < 283" using assms by (simp_all add: n_def)
  have "(word_of_nat n :: 64 word) - 27 = word_of_nat (n - 27)"
    using n by (simp add: of_nat_diff)
  then have "recovery_id V = ucast (word_of_nat (n - 27) :: 64 word)"
    by (simp add: recovery_id_def Uint64_def n_def)
  also have "\<dots> = (word_of_nat (n - 27) :: byte)"
  proof -
    have "n - 27 < 2 ^ 64" using n by simp
    then show ?thesis by (simp add: unsigned_of_nat take_bit_nat_eq_self)
  qed
  finally have "unat (recovery_id V) = (n - 27) mod 256"
    by (simp add: unat_of_nat)
  with n show ?thesis by (simp add: n_def)
qed

lemma magnitude_after_normalization:
  assumes "\<forall>v. ValidateSignatureValues X v R S \<longrightarrow> v \<le> 1"
  shows "(8 < BitLen V \<or> \<not> ValidateSignatureValues X (recovery_id V) R S)
     \<longleftrightarrow> (256 \<le> \<bar>V - 27\<bar> \<or> \<not> ValidateSignatureValues X (recovery_id V) R S)"
proof (cases "ValidateSignatureValues X (recovery_id V) R S")
  case False
  then show ?thesis by simp
next
  case True
  with assms have "recovery_id V \<le> 1" by blast
  then have le: "unat (recovery_id V) \<le> 1" by (simp add: word_le_nat_alt)
  have "256 \<le> \<bar>V\<bar> \<longleftrightarrow> 256 \<le> \<bar>V - 27\<bar>"
  proof (rule ccontr)
    assume "\<not> ?thesis"
    then have "27 \<le> \<bar>V\<bar> \<and> \<bar>V\<bar> < 283 \<and> 202 \<le> \<bar>V\<bar> - 27" by linarith
    with recovery_id_unat [of V] le show False by linarith
  qed
  with True show ?thesis by (simp add: BitLen_gt_8)
qed

lemma recoverPlain_result:
  assumes "ValidateSignatureValues X (recovery_id V) R S \<longrightarrow> \<bar>R\<bar> < 2 ^ 256 \<and> \<bar>S\<bar> < 2 ^ 256"
  shows "\<exists>res. recoverPlain X h R S V = Some res
     \<and> (isl res \<longleftrightarrow>
           8 < BitLen V
         \<or> \<not> ValidateSignatureValues X (recovery_id V) R S
         \<or> isl (Ecrecover X (hash_bytes h) (signature65 R S (recovery_id V)))
         \<or> (\<exists>pub. Ecrecover X (hash_bytes h) (signature65 R S (recovery_id V)) = Inr pub
                \<and> (pub = [] \<or> hd pub \<noteq> 4)))
     \<and> (\<forall>a. res = Inr a \<longrightarrow>
           (\<exists>pub. Ecrecover X (hash_bytes h) (signature65 R S (recovery_id V)) = Inr pub
              \<and> a = drop 12 (hash_bytes (Keccak256 X (tl pub))) \<and> length a = 20))"
proof (cases "8 < BitLen V \<or> \<not> ValidateSignatureValues X (recovery_id V) R S")
  case True
  then show ?thesis by (auto simp: recoverPlain_def Let_def)
next
  case False
  with assms have len: "\<not> (32 < length (Bytes R) \<or> 32 < length (Bytes S))"
    using length_Bytes [of R] length_Bytes [of S] by auto
  show ?thesis
  proof (cases "Ecrecover X (hash_bytes h) (signature65 R S (recovery_id V))")
    case (Inl err)
    with False len show ?thesis by (simp add: recoverPlain_def Let_def)
  next
    case (Inr pub)
    with False len show ?thesis
      by (simp add: recoverPlain_def Let_def length_hash_bytes)
  qed
qed

lemma Bytes_small: "Bytes 1 = [1]" "Bytes 2 = [2]" "Bytes 5 = [5]" "Bytes 6 = [6]" "Bytes 100 = [100]"
  by (simp_all add: Bytes_def nat_Bytes.simps)

lemma recovery_id_27: "recovery_id 27 = 0"
  by (simp add: recovery_id_def Uint64_def)

text \<open>
  Claim C8. Let \<^verbatim>\<open>V\<close>, \<^verbatim>\<open>R\<close> and \<^verbatim>\<open>S\<close> of the check be non-nil, and
  let the validation accept only values of \<^verbatim>\<open>R\<close> and \<^verbatim>\<open>S\<close> of at most
  32 bytes (it accepts the curve's scalars). Then \<^verbatim>\<open>Sender\<close> returns, and
  it returns an error exactly when \<^verbatim>\<open>V\<close> has more than 8 bits in
  magnitude, or \<^verbatim>\<open>ValidateSignatureValues\<close> rejects the recovery id
  \<^verbatim>\<open>byte(V - 27)\<close> with \<^verbatim>\<open>R\<close> and \<^verbatim>\<open>S\<close>, or \<^verbatim>\<open>Ecrecover\<close>, on the
  bytes of \<^verbatim>\<open>Hash()\<close> and the 65-byte signature, fails, or the key it
  recovers is empty or does not start with the tag 4. The source tests the
  length of \<^verbatim>\<open>V\<close> before it subtracts 27; for a validation that accepts
  no recovery id but 0 and 1, the same holds with the test on the magnitude
  of \<^verbatim>\<open>V - 27\<close> instead. When \<^verbatim>\<open>Sender\<close> returns an address, it is
  bytes 12 to 31, the last 20 bytes, of the digest of the recovered key
  without its first byte.
\<close>

theorem Sender_result:
  assumes "chk_V c = Some V" and "chk_R c = Some R" and "chk_S c = Some S"
    and "ValidateSignatureValues X (recovery_id V) R S \<longrightarrow> \<bar>R\<bar> < 2 ^ 256 \<and> \<bar>S\<bar> < 2 ^ 256"
  shows "\<exists>res. Sender X c = Some res
     \<and> (isl res \<longleftrightarrow>
           8 < BitLen V
         \<or> \<not> ValidateSignatureValues X (recovery_id V) R S
         \<or> isl (Ecrecover X (hash_bytes (Hash X c)) (signature65 R S (recovery_id V)))
         \<or> (\<exists>pub. Ecrecover X (hash_bytes (Hash X c)) (signature65 R S (recovery_id V)) = Inr pub
                \<and> (pub = [] \<or> hd pub \<noteq> 4)))
     \<and> ((\<forall>v. ValidateSignatureValues X v R S \<longrightarrow> v \<le> 1) \<longrightarrow>
          (isl res \<longleftrightarrow>
             256 \<le> \<bar>V - 27\<bar>
           \<or> \<not> ValidateSignatureValues X (recovery_id V) R S
           \<or> isl (Ecrecover X (hash_bytes (Hash X c)) (signature65 R S (recovery_id V)))
           \<or> (\<exists>pub. Ecrecover X (hash_bytes (Hash X c)) (signature65 R S (recovery_id V)) = Inr pub
                  \<and> (pub = [] \<or> hd pub \<noteq> 4))))
     \<and> (\<forall>a. res = Inr a \<longrightarrow>
           (\<exists>pub. Ecrecover X (hash_bytes (Hash X c)) (signature65 R S (recovery_id V)) = Inr pub
              \<and> a = drop 12 (hash_bytes (Keccak256 X (tl pub))) \<and> length a = 20))"
proof -
  have s: "Sender X c = recoverPlain X (Hash X c) R S V"
    using assms(1-3) by (simp add: Sender_def)
  from recoverPlain_result [OF assms(4), of "Hash X c"] obtain res where
    r: "recoverPlain X (Hash X c) R S V = Some res"
    and e: "isl res \<longleftrightarrow>
           (8 < BitLen V \<or> \<not> ValidateSignatureValues X (recovery_id V) R S)
         \<or> isl (Ecrecover X (hash_bytes (Hash X c)) (signature65 R S (recovery_id V)))
         \<or> (\<exists>pub. Ecrecover X (hash_bytes (Hash X c)) (signature65 R S (recovery_id V)) = Inr pub
                \<and> (pub = [] \<or> hd pub \<noteq> 4))"
    and a: "\<forall>a. res = Inr a \<longrightarrow>
           (\<exists>pub. Ecrecover X (hash_bytes (Hash X c)) (signature65 R S (recovery_id V)) = Inr pub
              \<and> a = drop 12 (hash_bytes (Keccak256 X (tl pub))) \<and> length a = 20)"
    by blast
  have lit: "isl res \<longleftrightarrow>
             (256 \<le> \<bar>V - 27\<bar> \<or> \<not> ValidateSignatureValues X (recovery_id V) R S)
           \<or> isl (Ecrecover X (hash_bytes (Hash X c)) (signature65 R S (recovery_id V)))
           \<or> (\<exists>pub. Ecrecover X (hash_bytes (Hash X c)) (signature65 R S (recovery_id V)) = Inr pub
                  \<and> (pub = [] \<or> hd pub \<noteq> 4))"
    if "\<forall>v. ValidateSignatureValues X v R S \<longrightarrow> v \<le> 1"
    using e magnitude_after_normalization [OF that, of V] by simp
  from s r e a lit show ?thesis by (simp add: disj_assoc)
qed

theorem Sender_result_witness:
  "\<exists>a. Sender externals0 check0 = Some (Inr a) \<and> length a = 20"
proof -
  have h: "chk_V check0 = Some 27" "chk_R check0 = Some 1" "chk_S check0 = Some 2"
    "ValidateSignatureValues externals0 (recovery_id 27) 1 2 \<longrightarrow> \<bar>1::int\<bar> < 2 ^ 256 \<and> \<bar>2::int\<bar> < 2 ^ 256"
    by (simp_all add: check0_def)
  have len: "length (signature65 1 2 0) = 65"
    by (simp add: signature65_def Bytes_small)
  have ok: "\<not> (8 < BitLen 27
         \<or> \<not> ValidateSignatureValues externals0 (recovery_id 27) 1 2
         \<or> isl (Ecrecover externals0 (hash_bytes (Hash externals0 check0)) (signature65 1 2 (recovery_id 27)))
         \<or> (\<exists>pub. Ecrecover externals0 (hash_bytes (Hash externals0 check0)) (signature65 1 2 (recovery_id 27)) = Inr pub
                \<and> (pub = [] \<or> hd pub \<noteq> 4)))"
    by (simp add: BitLen_gt_8 recovery_id_27 externals0_def len)
  from Sender_result [OF h] obtain res where
    r: "Sender externals0 check0 = Some res"
    and e: "isl res \<longleftrightarrow>
           8 < BitLen 27
         \<or> \<not> ValidateSignatureValues externals0 (recovery_id 27) 1 2
         \<or> isl (Ecrecover externals0 (hash_bytes (Hash externals0 check0)) (signature65 1 2 (recovery_id 27)))
         \<or> (\<exists>pub. Ecrecover externals0 (hash_bytes (Hash externals0 check0)) (signature65 1 2 (recovery_id 27)) = Inr pub
                \<and> (pub = [] \<or> hd pub \<noteq> 4))"
    and a: "\<forall>a. res = Inr a \<longrightarrow>
           (\<exists>pub. Ecrecover externals0 (hash_bytes (Hash externals0 check0)) (signature65 1 2 (recovery_id 27)) = Inr pub
              \<and> a = drop 12 (hash_bytes (Keccak256 externals0 (tl pub))) \<and> length a = 20)"
    by blast
  from e ok have "\<not> isl res" by blast
  then obtain addr where "res = Inr addr" by (cases res) auto
  with r a show ?thesis by blast
qed

lemma Hash_ignores_signature:
  "Hash X (c\<lparr>chk_V := v, chk_R := r, chk_S := s\<rparr>) = Hash X c"
  by (simp add: Hash_def Hash_fields_def)






end
